theory Spec2Isabelle
  imports Main "HOL-Library.Sublist"
begin

section \<open>The Astro DB Vite plugin (vite-plugin-db.ts)\<close>

text \<open>
  A shallow embedding of \<^verbatim>\<open>packages/db/src/core/integration/vite-plugin-db.ts\<close>:
  the \<^verbatim>\<open>resolveId\<close> and \<^verbatim>\<open>load\<close> hooks of \<^verbatim>\<open>vitePluginDb\<close>, the two generators of
  virtual module text and \<^verbatim>\<open>recreateTables\<close>.

  JavaScript strings are \<^typ>\<open>string\<close>; \<^verbatim>\<open>undefined\<close> and \<^verbatim>\<open>null\<close> are \<^const>\<open>None\<close>; a rejected
  promise is \<^const>\<open>Inl\<close>. A \<^verbatim>\<open>URL\<close> object is held by its serialisation \<^verbatim>\<open>href\<close>.
\<close>

subsection \<open>Data\<close>

datatype URL = URL (href: string)

text \<open>An element of \<^verbatim>\<open>Array<string | URL>\<close>, told apart by \<^verbatim>\<open>typeof pathOrUrl === 'string'\<close>.\<close>

datatype seed_ref = Path string | Locator URL

text \<open>
  \<^verbatim>\<open>DBTables\<close> is a \<^verbatim>\<open>Record<string, DBTable>\<close>. It is held as the list of its entries in the
  order \<^verbatim>\<open>Object.entries\<close> enumerates them. Table names are emitted as JavaScript identifiers
  (\<^verbatim>\<open>export const name\<close>), so no name is an array-index key and that order is the order in
  which the tables were declared. The table definition itself (\<^verbatim>\<open>DBTable\<close>, declared in
  \<^verbatim>\<open>types.js\<close>) is the type parameter \<open>'t\<close>.
\<close>

type_synonym 't DBTables = "(string \<times> 't) list"

text \<open>
  The two alternatives of \<^verbatim>\<open>VitePluginDBParams\<close>: \<^verbatim>\<open>connectToStudio: false\<close> carries
  \<^verbatim>\<open>seedFiles\<close>, \<^verbatim>\<open>connectToStudio: true\<close> carries \<^verbatim>\<open>appToken\<close>. The late accessors
  \<^verbatim>\<open>tables.get()\<close> and \<^verbatim>\<open>seedFiles.get()\<close> are taken to answer the same throughout one
  call of \<^verbatim>\<open>load\<close>; the record holds that answer.
\<close>

datatype connection = Local "seed_ref list" | Studio string

record 't VitePluginDBParams =
  connection :: connection
  tables :: "'t DBTables"
  srcDir :: URL
  root :: URL

definition connectToStudio :: "'t VitePluginDBParams \<Rightarrow> bool" where
  "connectToStudio params = (case connection params of Studio _ \<Rightarrow> True | Local _ \<Rightarrow> False)"

text \<open>
  What the file imports. The constants and helpers of \<^verbatim>\<open>consts.js\<close>, \<^verbatim>\<open>utils.js\<close>,
  \<^verbatim>\<open>runtime/queries.js\<close> and \<^verbatim>\<open>runtime/db-client.js\<close>, and the functions of Node, Vite,
  drizzle and the JavaScript library it calls, are parameters, collected in one record.
  \<open>'c\<close> is a database client, \<open>'s\<close> the contents of the databases, \<open>'e\<close> an error value.
  \<^verbatim>\<open>db.batch\<close> either fails, and all of the batch is undone, or answers with the new
  contents. The generators of SQL text and the functions on paths and URLs return a value
  for every argument, as their signatures say.
\<close>

record ('t, 'c, 's, 'e) bindings =
  VIRTUAL_MODULE_ID :: string
  DB_PATH :: string
  RUNTIME_IMPORT :: string
  RUNTIME_CONFIG_IMPORT :: string
  SEED_DEV_FILE_NAME :: "string list"
  getDbDirectoryUrl :: "URL \<Rightarrow> URL"
  getRemoteDatabaseUrl :: string
  getCreateTableQuery :: "string \<Rightarrow> 't \<Rightarrow> string"
  getCreateIndexQueries :: "string \<Rightarrow> 't \<Rightarrow> string list"
  createLocalDatabaseClient :: "string \<Rightarrow> 'c"
  batch :: "'c \<Rightarrow> string list \<Rightarrow> 's \<Rightarrow> 'e + 's"
  escapeName :: "string \<Rightarrow> string"
  normalizePath :: "string \<Rightarrow> string"
  fileURLToPath :: "URL \<Rightarrow> string"
  new_URL :: "string \<Rightarrow> URL \<Rightarrow> URL"
  pathname :: "URL \<Rightarrow> string"
  path_resolve :: "string \<Rightarrow> string \<Rightarrow> string"
  stringify :: "string \<Rightarrow> string"
  stringify_table :: "'t \<Rightarrow> string"

subsection \<open>Module constants\<close>

definition WITH_SEED_VIRTUAL_MODULE_ID :: string where
  "WITH_SEED_VIRTUAL_MODULE_ID = ''astro:db:seed''"

text \<open>\<^verbatim>\<open>resolved.virtual\<close> and \<^verbatim>\<open>resolved.seedVirtual\<close>: the id behind a NUL character.\<close>

definition resolved_virtual :: "('t, 'c, 's, 'e) bindings \<Rightarrow> string" where
  "resolved_virtual I = CHR 0x00 # VIRTUAL_MODULE_ID I"

definition resolved_seedVirtual :: string where
  "resolved_seedVirtual = CHR 0x00 # WITH_SEED_VIRTUAL_MODULE_ID"

definition srcDirPath :: "('t, 'c, 's, 'e) bindings \<Rightarrow> 't VitePluginDBParams \<Rightarrow> string" where
  "srcDirPath I params = normalizePath I (fileURLToPath I (srcDir params))"

definition seedFilePaths :: "('t, 'c, 's, 'e) bindings \<Rightarrow> 't VitePluginDBParams \<Rightarrow> string list" where
  "seedFilePaths I params =
     map (\<lambda>name. normalizePath I (fileURLToPath I (new_URL I name (getDbDirectoryUrl I (root params)))))
       (SEED_DEV_FILE_NAME I)"

subsection \<open>\<^verbatim>\<open>resolveId\<close>\<close>

text \<open>
  \<open>this_resolve\<close> is the host's \<^verbatim>\<open>this.resolve\<close>, which answers with the \<^verbatim>\<open>id\<close> of a
  \<^verbatim>\<open>ResolvedId\<close> or with \<^verbatim>\<open>null\<close>. A missing importer is \<^const>\<open>None\<close>; the empty string is
  falsy as well, so \<^verbatim>\<open>this.resolve\<close> is not asked about it.
\<close>

definition resolveId ::
  "('t, 'c, 's, 'e) bindings \<Rightarrow> 't VitePluginDBParams \<Rightarrow> (string \<Rightarrow> string option) \<Rightarrow>
     string \<Rightarrow> string option \<Rightarrow> string option" where
  "resolveId I params this_resolve id' rawImporter =
     (if id' \<noteq> VIRTUAL_MODULE_ID I then None
      else if connectToStudio params then Some (resolved_virtual I)
      else
        (let importer =
               (case rawImporter of
                  None \<Rightarrow> None
                | Some r \<Rightarrow> if r = [] then None else this_resolve r)
         in case importer of
              None \<Rightarrow> Some (resolved_virtual I)
            | Some importer_id \<Rightarrow>
                if prefix (srcDirPath I params) importer_id then Some resolved_seedVirtual
                else Some (resolved_virtual I)))"

subsection \<open>Template literals\<close>

text \<open>
  A template literal is a sequence of parts: the text the generator itself writes
  (\<open>Quasi\<close>) and the values it interpolates (\<open>Interp\<close>). A nested template literal, and the
  strings of \<^verbatim>\<open>join\<close>, are spliced in. \<open>render\<close> is the string the literal evaluates to.
  \<open>skeleton\<close> keeps the written text and leaves a NUL character for each interpolated
  value, so that what occurs in it is code the generator wrote, never part of a datum.
\<close>

datatype part = Quasi string | Interp string

fun part_text :: "part \<Rightarrow> string" where
  "part_text (Quasi s) = s"
| "part_text (Interp s) = s"

fun part_code :: "part \<Rightarrow> string" where
  "part_code (Quasi s) = s"
| "part_code (Interp s) = [CHR 0x00]"

definition render :: "part list \<Rightarrow> string" where
  "render ps = concat (map part_text ps)"

definition skeleton :: "part list \<Rightarrow> string" where
  "skeleton ps = concat (map part_code ps)"

text \<open>\<^verbatim>\<open>Array.prototype.join\<close>, on strings and on sequences of parts alike.\<close>

fun join :: "'a list \<Rightarrow> 'a list list \<Rightarrow> 'a list" where
  "join sep [] = []"
| "join sep [x] = x"
| "join sep (x # y # ys) = x @ sep @ join sep (y # ys)"

text \<open>
  \<^verbatim>\<open>JSON.stringify\<close> of an array of strings, from the parameter for one string. A \<^verbatim>\<open>URL\<close> is
  serialised through its \<^verbatim>\<open>toJSON\<close>, which is its \<^verbatim>\<open>href\<close>.
\<close>

definition stringify_array :: "('t, 'c, 's, 'e) bindings \<Rightarrow> string list \<Rightarrow> string" where
  "stringify_array I xs = ''['' @ join '','' (map (stringify I) xs) @ '']''"

definition stringify_URL :: "('t, 'c, 's, 'e) bindings \<Rightarrow> URL \<Rightarrow> string" where
  "stringify_URL I u = stringify I (href u)"

text \<open>
  How often a string occurs in a text, where it occurs first (\<^verbatim>\<open>String.prototype.indexOf\<close>),
  and whether the first occurrence of one string lies ahead of the first occurrence of
  another.
\<close>

fun occurrences :: "string \<Rightarrow> string \<Rightarrow> nat" where
  "occurrences n [] = 0"
| "occurrences n (c # cs) = (if prefix n (c # cs) then 1 else 0) + occurrences n cs"

fun indexOf :: "string \<Rightarrow> string \<Rightarrow> nat option" where
  "indexOf n [] = (if n = [] then Some 0 else None)"
| "indexOf n (c # cs) = (if prefix n (c # cs) then Some 0 else map_option Suc (indexOf n cs))"

definition precedes :: "string \<Rightarrow> string \<Rightarrow> string \<Rightarrow> bool" where
  "precedes x y t =
     (case indexOf x t of
        None \<Rightarrow> False
      | Some i \<Rightarrow> (case indexOf y t of None \<Rightarrow> False | Some j \<Rightarrow> i < j))"

subsection \<open>The generators of module text\<close>

definition getStringifiedCollectionExports_template ::
  "('t, 'c, 's, 'e) bindings \<Rightarrow> 't DBTables \<Rightarrow> part list" where
  "getStringifiedCollectionExports_template I tbls =
     join [Quasi ''\<newline>'']
       (map (\<lambda>(name, collection).
               [Quasi ''export const '', Interp name, Quasi '' = asDrizzleTable('',
                Interp (stringify I name), Quasi '', '', Interp (stringify_table I collection),
                Quasi '', false)''])
          tbls)"

definition getStringifiedCollectionExports :: "('t, 'c, 's, 'e) bindings \<Rightarrow> 't DBTables \<Rightarrow> string" where
  "getStringifiedCollectionExports I tbls = render (getStringifiedCollectionExports_template I tbls)"

definition userSeedFilePaths :: "('t, 'c, 's, 'e) bindings \<Rightarrow> string list" where
  "userSeedFilePaths I =
     map (\<lambda>name. pathname I (new_URL I name (getDbDirectoryUrl I (URL ''file:///''))))
       (SEED_DEV_FILE_NAME I)"

text \<open>The local function \<^verbatim>\<open>resolveId\<close> of \<^verbatim>\<open>getLocalVirtualModContents\<close>.\<close>

definition local_resolveId :: "('t, 'c, 's, 'e) bindings \<Rightarrow> URL \<Rightarrow> string \<Rightarrow> string" where
  "local_resolveId I rt id' =
     (if prefix ''.'' id' then path_resolve I (fileURLToPath I rt) id' else id')"

definition integrationSeedFilePaths ::
  "('t, 'c, 's, 'e) bindings \<Rightarrow> URL \<Rightarrow> seed_ref list \<Rightarrow> string list" where
  "integrationSeedFilePaths I rt seedFiles =
     map (\<lambda>pathOrUrl. case pathOrUrl of
                         Path s \<Rightarrow> local_resolveId I rt s
                       | Locator u \<Rightarrow> pathname I u)
       seedFiles"

definition integrationSeedImports ::
  "('t, 'c, 's, 'e) bindings \<Rightarrow> URL \<Rightarrow> seed_ref list \<Rightarrow> part list list" where
  "integrationSeedImports I rt seedFiles =
     map (\<lambda>filePath. [Quasi ''() => import('', Interp (stringify I filePath), Quasi '')''])
       (integrationSeedFilePaths I rt seedFiles)"

definition getLocalVirtualModContents_template ::
  "('t, 'c, 's, 'e) bindings \<Rightarrow> 't DBTables \<Rightarrow> URL \<Rightarrow> seed_ref list \<Rightarrow> bool \<Rightarrow> part list" where
  "getLocalVirtualModContents_template I tbls rt seedFiles shouldSeed =
     (let dbUrl = new_URL I (DB_PATH I) rt in
        [Quasi ''\<newline>import { asDrizzleTable, createLocalDatabaseClient } from '',
         Interp (RUNTIME_IMPORT I), Quasi '';\<newline>'']
      @ (if shouldSeed
         then [Quasi ''import { seedLocal } from '', Interp (RUNTIME_IMPORT I), Quasi '';'']
         else [Quasi []])
      @ [Quasi ''\<newline>\<newline>const dbUrl = '', Interp (stringify_URL I dbUrl),
         Quasi '';\<newline>export const db = createLocalDatabaseClient({ dbUrl });\<newline>\<newline>'']
      @ (if shouldSeed
         then [Quasi (''await seedLocal({\<newline>'' @ CHR 0x09 # ''userSeedGlob: import.meta.glob(''),
               Interp (stringify_array I (userSeedFilePaths I)),
               Quasi ('', { eager: true }),\<newline>'' @ CHR 0x09 # ''integrationSeedImports: ['')]
              @ join [Quasi '',''] (integrationSeedImports I rt seedFiles)
              @ [Quasi ''],\<newline>});'']
         else [Quasi []])
      @ [Quasi ''\<newline>\<newline>export * from '', Interp (RUNTIME_CONFIG_IMPORT I),
         Quasi '';\<newline>\<newline>'']
      @ getStringifiedCollectionExports_template I tbls)"

definition getLocalVirtualModContents ::
  "('t, 'c, 's, 'e) bindings \<Rightarrow> 't DBTables \<Rightarrow> URL \<Rightarrow> seed_ref list \<Rightarrow> bool \<Rightarrow> string" where
  "getLocalVirtualModContents I tbls rt seedFiles shouldSeed =
     render (getLocalVirtualModContents_template I tbls rt seedFiles shouldSeed)"

definition getStudioVirtualModContents_template ::
  "('t, 'c, 's, 'e) bindings \<Rightarrow> 't DBTables \<Rightarrow> string \<Rightarrow> part list" where
  "getStudioVirtualModContents_template I tbls appToken =
       [Quasi ''\<newline>import {asDrizzleTable, createRemoteDatabaseClient} from '',
        Interp (RUNTIME_IMPORT I),
        Quasi '';\<newline>\<newline>export const db = await createRemoteDatabaseClient('',
        Interp (stringify I appToken),
        Quasi '', import.meta.env.ASTRO_STUDIO_REMOTE_DB_URL ?? '',
        Interp (stringify I (getRemoteDatabaseUrl I)),
        Quasi '');\<newline>\<newline>export * from '', Interp (RUNTIME_CONFIG_IMPORT I),
        Quasi '';\<newline>\<newline>'']
     @ getStringifiedCollectionExports_template I tbls
     @ [Quasi [CHR 0x0A, CHR 0x09]]"

definition getStudioVirtualModContents ::
  "('t, 'c, 's, 'e) bindings \<Rightarrow> 't DBTables \<Rightarrow> string \<Rightarrow> string" where
  "getStudioVirtualModContents I tbls appToken =
     render (getStudioVirtualModContents_template I tbls appToken)"

subsection \<open>\<^verbatim>\<open>recreateTables\<close>\<close>

text \<open>
  The world a call runs in: the contents of the databases, and the calls of \<^verbatim>\<open>db.batch\<close>
  made so far, each with its client and its statements. A statement is its SQL text.
\<close>

record ('c, 's) world =
  contents :: 's
  batches :: "('c \<times> string list) list"

definition db_batch ::
  "('t, 'c, 's, 'e) bindings \<Rightarrow> 'c \<Rightarrow> string list \<Rightarrow> ('c, 's) world \<Rightarrow> ('e + unit) \<times> ('c, 's) world" where
  "db_batch I db statements w =
     (case batch I db statements (contents w) of
        Inl e \<Rightarrow> (Inl e, w\<lparr>batches := batches w @ [(db, statements)]\<rparr>)
      | Inr s \<Rightarrow> (Inr (), \<lparr>contents = s, batches = batches w @ [(db, statements)]\<rparr>))"

text \<open>The \<^verbatim>\<open>for\<close> loop over the entries, pushing onto \<^verbatim>\<open>setupQueries\<close>.\<close>

fun push_setupQueries :: "('t, 'c, 's, 'e) bindings \<Rightarrow> 't DBTables \<Rightarrow> string list \<Rightarrow> string list" where
  "push_setupQueries I [] setupQueries = setupQueries"
| "push_setupQueries I ((name, table) # rest) setupQueries =
     (let dropQuery = ''DROP TABLE IF EXISTS '' @ escapeName I name;
          createQuery = getCreateTableQuery I name table;
          indexQueries = getCreateIndexQueries I name table
      in push_setupQueries I rest (setupQueries @ dropQuery # createQuery # indexQueries))"

definition recreateTables ::
  "('t, 'c, 's, 'e) bindings \<Rightarrow> 'c \<Rightarrow> 't DBTables \<Rightarrow> ('c, 's) world \<Rightarrow> ('e + unit) \<times> ('c, 's) world" where
  "recreateTables I db tbls w =
     db_batch I db (''pragma defer_foreign_keys=true;'' # push_setupQueries I tbls []) w"

subsection \<open>\<^verbatim>\<open>load\<close>\<close>

definition load ::
  "('t, 'c, 's, 'e) bindings \<Rightarrow> 't VitePluginDBParams \<Rightarrow> string \<Rightarrow> ('c, 's) world \<Rightarrow>
     ('e + string option) \<times> ('c, 's) world" where
  "load I params id' w =
     (let (recreated, w') =
            (if list_ex (\<lambda>f. id' = f) (seedFilePaths I params)
             then recreateTables I
                    (createLocalDatabaseClient I (href (new_URL I (DB_PATH I) (root params))))
                    (tables params) w
             else (Inr (), w))
      in case recreated of
           Inl e \<Rightarrow> (Inl e, w')
         | Inr _ \<Rightarrow>
             if id' \<noteq> resolved_virtual I \<and> id' \<noteq> resolved_seedVirtual then (Inr None, w')
             else
               (case connection params of
                  Studio appToken \<Rightarrow>
                    (Inr (Some (getStudioVirtualModContents I (tables params) appToken)), w')
                | Local seedFiles \<Rightarrow>
                    (Inr (Some (getLocalVirtualModContents I (tables params) (root params) seedFiles
                                  (id' = resolved_seedVirtual))), w')))"

subsection \<open>The written text of the templates\<close>

text \<open>
  The pieces the skeletons of the three templates are made of: the line of one table, one
  deferred import, the head of the local module with or without the import of
  \<^verbatim>\<open>seedLocal\<close>, the seed invocation up to and after its array of deferred imports, the tail
  of the local module, and the head of the studio module.
\<close>

definition table_export_code :: string where
  "table_export_code = ''export const '' @ CHR 0x00 # '' = asDrizzleTable('' @ CHR 0x00 # '', '' @ CHR 0x00 # '', false)''"

definition thunk_code :: string where
  "thunk_code = ''() => import('' @ CHR 0x00 # '')''"

definition local_head_code :: "bool \<Rightarrow> string" where
  "local_head_code shouldSeed =
     ''\<newline>import { asDrizzleTable, createLocalDatabaseClient } from '' @ CHR 0x00 # '';\<newline>'' @
     (if shouldSeed then ''import { seedLocal } from '' @ CHR 0x00 # '';'' else []) @
     ''\<newline>\<newline>const dbUrl = '' @ CHR 0x00 #
     '';\<newline>export const db = createLocalDatabaseClient({ dbUrl });\<newline>\<newline>''"

definition seed_open_code :: string where
  "seed_open_code =
     ''await seedLocal({\<newline>'' @ CHR 0x09 # ''userSeedGlob: import.meta.glob('' @ CHR 0x00 #
     '', { eager: true }),\<newline>'' @ CHR 0x09 # ''integrationSeedImports: [''"

definition seed_close_code :: string where
  "seed_close_code = ''],\<newline>});''"

definition local_tail_code :: string where
  "local_tail_code = ''\<newline>\<newline>export * from '' @ CHR 0x00 # '';\<newline>\<newline>''"

definition studio_head_code :: string where
  "studio_head_code =
     ''\<newline>import {asDrizzleTable, createRemoteDatabaseClient} from '' @ CHR 0x00 #
     '';\<newline>\<newline>export const db = await createRemoteDatabaseClient('' @ CHR 0x00 #
     '', import.meta.env.ASTRO_STUDIO_REMOTE_DB_URL ?? '' @ CHR 0x00 #
     '');\<newline>\<newline>export * from '' @ CHR 0x00 # '';\<newline>\<newline>''"

subsection \<open>What the specification says of a batch\<close>

text \<open>
  The statements the specification lists for one table, in its order: DROP TABLE IF EXISTS,
  CREATE TABLE, then the CREATE INDEX statements. The batch it describes: the statement
  that defers the foreign key checks, then the statements of every table, in the order of
  the tables.
\<close>

definition spec_table_statements :: "('t, 'c, 's, 'e) bindings \<Rightarrow> string \<times> 't \<Rightarrow> string list" where
  "spec_table_statements I entry =
     (''DROP TABLE IF EXISTS '' @ escapeName I (fst entry))
       # getCreateTableQuery I (fst entry) (snd entry)
       # getCreateIndexQueries I (fst entry) (snd entry)"

definition spec_batch :: "('t, 'c, 's, 'e) bindings \<Rightarrow> 't DBTables \<Rightarrow> string list" where
  "spec_batch I tbls =
     ''pragma defer_foreign_keys=true;'' # concat (map (spec_table_statements I) tbls)"

text \<open>The client \<^verbatim>\<open>load\<close> hands to \<^verbatim>\<open>recreateTables\<close>: the local one, at \<^verbatim>\<open>DB_PATH\<close> under the root.\<close>

definition local_client :: "('t, 'c, 's, 'e) bindings \<Rightarrow> 't VitePluginDBParams \<Rightarrow> 'c" where
  "local_client I params = createLocalDatabaseClient I (href (new_URL I (DB_PATH I) (root params)))"

subsection \<open>An instance of the bindings\<close>

text \<open>
  For examples: the constants as Astro DB sets them, POSIX paths, \<^verbatim>\<open>file:\<close> URLs whose paths
  need no escaping, and strings that \<^verbatim>\<open>JSON.stringify\<close> only has to put between double
  quotes. A table definition is the list of its index names. The database contents are
  the batches committed so far; \<open>posix_bindings\<close> has a database that accepts every batch,
  \<open>failing_bindings\<close> one that refuses every batch.
\<close>

definition quoted :: "string \<Rightarrow> string" where
  "quoted s = CHR 0x22 # s @ [CHR 0x22]"

definition posix_resolve :: "string \<Rightarrow> string \<Rightarrow> string" where
  "posix_resolve base rel =
     (if suffix ''/'' base then butlast base else base) @ ''/'' @
     (if prefix ''./'' rel then drop 2 rel else rel)"

definition posix_bindings :: "(string list, string, string list list, string) bindings" where
  "posix_bindings =
     \<lparr> VIRTUAL_MODULE_ID = ''astro:db'',
       DB_PATH = ''.astro/content.db'',
       RUNTIME_IMPORT = quoted ''@astrojs/db/runtime'',
       RUNTIME_CONFIG_IMPORT = quoted ''@astrojs/db/dist/runtime/config.js'',
       SEED_DEV_FILE_NAME = [''seed.ts'', ''seed.js'', ''seed.mjs'', ''seed.mts''],
       getDbDirectoryUrl = (\<lambda>u. URL (href u @ ''db/'')),
       getRemoteDatabaseUrl = ''https://db.services.astro.build'',
       getCreateTableQuery = (\<lambda>name table. ''CREATE TABLE '' @ quoted name @ '' (_id INTEGER PRIMARY KEY)''),
       getCreateIndexQueries =
         (\<lambda>name table. map (\<lambda>i. ''CREATE INDEX '' @ quoted i @ '' ON '' @ quoted name @ '' (_id)'') table),
       createLocalDatabaseClient = (\<lambda>dbUrl. dbUrl),
       batch = (\<lambda>db statements s. Inr (s @ [statements])),
       escapeName = quoted,
       normalizePath = (\<lambda>p. p),
       fileURLToPath = (\<lambda>u. drop 7 (href u)),
       new_URL = (\<lambda>rel base. URL (href base @ rel)),
       pathname = (\<lambda>u. drop 7 (href u)),
       path_resolve = posix_resolve,
       stringify = quoted,
       stringify_table = (\<lambda>table. ''['' @ join '','' (map quoted table) @ '']'') \<rparr>"

definition failing_bindings :: "(string list, string, string list list, string) bindings" where
  "failing_bindings = posix_bindings \<lparr> batch := (\<lambda>db statements s. Inl ''SQLITE_ERROR'') \<rparr>"

definition local_params :: "string list VitePluginDBParams" where
  "local_params =
     \<lparr> connection = Local [],
       tables = [(''Author'', []), (''Post'', [''by_author''])],
       srcDir = URL ''file:///proj/src/'',
       root = URL ''file:///proj/'' \<rparr>"

definition studio_params :: "string list VitePluginDBParams" where
  "studio_params = local_params \<lparr> connection := Studio ''token'' \<rparr>"

definition fresh :: "(string, string list list) world" where
  "fresh = \<lparr> contents = [], batches = [] \<rparr>"

section \<open>Properties\<close>

lemmas example_defs =
  posix_bindings_def failing_bindings_def local_params_def studio_params_def fresh_def
  seedFilePaths_def local_client_def quoted_def

subsection \<open>Resolution\<close>

text \<open>
  Claim C1. \<^verbatim>\<open>resolveId\<close> declines every id but the reserved specifier. For the reserved
  specifier it answers with the plain virtual id in studio mode, whatever the importer;
  in local mode it answers with the seed-bearing id when the importer is given, is resolved
  by the host and the resolved path starts with the path of the source directory, and with
  the plain id for every other importer, a missing and an unresolved one included. As long
  as the reserved specifier is not the seed-bearing one itself, the two answers differ, so
  the seed-bearing id is returned exactly in that case.
\<close>

theorem resolveId_cases:
  "resolveId I params this_resolve id' rawImporter =
     (if id' \<noteq> VIRTUAL_MODULE_ID I then None
      else if connectToStudio params then Some (resolved_virtual I)
      else if (\<exists>r importer_id. rawImporter = Some r \<and> r \<noteq> [] \<and> this_resolve r = Some importer_id \<and>
                 prefix (srcDirPath I params) importer_id)
      then Some resolved_seedVirtual
      else Some (resolved_virtual I))
   \<and> (VIRTUAL_MODULE_ID I \<noteq> WITH_SEED_VIRTUAL_MODULE_ID \<longrightarrow>
        (resolveId I params this_resolve id' rawImporter = Some resolved_seedVirtual \<longleftrightarrow>
           id' = VIRTUAL_MODULE_ID I \<and> \<not> connectToStudio params \<and>
           (\<exists>r importer_id. rawImporter = Some r \<and> r \<noteq> [] \<and> this_resolve r = Some importer_id \<and>
                 prefix (srcDirPath I params) importer_id)))"
  by (auto simp: resolveId_def resolved_virtual_def resolved_seedVirtual_def Let_def
        split: option.splits)

theorem resolveId_cases_witness:
  "VIRTUAL_MODULE_ID posix_bindings \<noteq> WITH_SEED_VIRTUAL_MODULE_ID
   \<and> resolveId posix_bindings local_params (\<lambda>r. Some r) ''astro:db'' (Some ''/proj/src/pages/index.astro'')
       = Some resolved_seedVirtual
   \<and> resolveId posix_bindings local_params (\<lambda>r. Some r) ''astro:db'' (Some ''/proj/db/seed.ts'')
       = Some (resolved_virtual posix_bindings)
   \<and> resolveId posix_bindings local_params (\<lambda>r. Some r) ''astro:db'' None
       = Some (resolved_virtual posix_bindings)
   \<and> resolveId posix_bindings local_params (\<lambda>r. None) ''astro:db'' (Some ''/proj/src/pages/index.astro'')
       = Some (resolved_virtual posix_bindings)
   \<and> resolveId posix_bindings studio_params (\<lambda>r. Some r) ''astro:db'' (Some ''/proj/src/pages/index.astro'')
       = Some (resolved_virtual posix_bindings)
   \<and> resolveId posix_bindings local_params (\<lambda>r. Some r) ''astro:content'' (Some ''/proj/src/pages/index.astro'')
       = None"
  using resolveId_cases [of posix_bindings local_params "\<lambda>r. Some r" "''astro:db''" "Some ''/proj/src/pages/index.astro''"]
        resolveId_cases [of posix_bindings local_params "\<lambda>r. Some r" "''astro:db''" "Some ''/proj/db/seed.ts''"]
        resolveId_cases [of posix_bindings local_params "\<lambda>r. Some r" "''astro:db''" None]
        resolveId_cases [of posix_bindings local_params "\<lambda>r. None" "''astro:db''" "Some ''/proj/src/pages/index.astro''"]
        resolveId_cases [of posix_bindings studio_params "\<lambda>r. Some r" "''astro:db''" "Some ''/proj/src/pages/index.astro''"]
        resolveId_cases [of posix_bindings local_params "\<lambda>r. Some r" "''astro:content''" "Some ''/proj/src/pages/index.astro''"]
  by (simp add: posix_bindings_def local_params_def studio_params_def srcDirPath_def
        connectToStudio_def WITH_SEED_VIRTUAL_MODULE_ID_def)

subsection \<open>The batch of \<^verbatim>\<open>recreateTables\<close>\<close>

lemma push_setupQueries_concat:
  "push_setupQueries I tbls setupQueries = setupQueries @ concat (map (spec_table_statements I) tbls)"
  by (induction tbls arbitrary: setupQueries) (auto simp: spec_table_statements_def)

lemma batches_db_batch: "batches (snd (db_batch I db statements w)) = batches w @ [(db, statements)]"
  by (simp add: db_batch_def split: sum.splits)

lemma recreateTables_as_db_batch: "recreateTables I db tbls w = db_batch I db (spec_batch I tbls) w"
  by (simp add: recreateTables_def spec_batch_def push_setupQueries_concat)

text \<open>
  Claim C2. A call of \<^verbatim>\<open>recreateTables\<close> submits one batch to its client, and that batch is
  the one the specification describes: the statement deferring the foreign key checks
  first, then for each table, in the order of the mapping, its DROP TABLE IF EXISTS, its
  CREATE TABLE and its CREATE INDEX statements, and nothing else.
\<close>

theorem recreateTables_batch:
  "batches (snd (recreateTables I db tbls w)) = batches w @ [(db, spec_batch I tbls)]"
  by (simp add: recreateTables_as_db_batch batches_db_batch)

subsection \<open>Loading a seed file\<close>

lemma load_at_seed_path:
  assumes "id' \<in> set (seedFilePaths I params)"
  shows "load I params id' w =
     (case recreateTables I (local_client I params) (tables params) w of
        (Inl e, w') \<Rightarrow> (Inl e, w')
      | (Inr u, w') \<Rightarrow>
          (if id' \<noteq> resolved_virtual I \<and> id' \<noteq> resolved_seedVirtual then Inr None
           else Inr (Some (case connection params of
                             Studio appToken \<Rightarrow> getStudioVirtualModContents I (tables params) appToken
                           | Local seedFiles \<Rightarrow>
                               getLocalVirtualModContents I (tables params) (root params) seedFiles
                                 (id' = resolved_seedVirtual))), w'))"
proof -
  have "list_ex (\<lambda>f. id' = f) (seedFilePaths I params)"
    using assms by (auto simp: list_ex_iff)
  then show ?thesis
    by (simp add: load_def local_client_def split: prod.splits sum.splits connection.splits)
qed

lemma load_at_other_id:
  assumes "id' \<notin> set (seedFilePaths I params)"
  shows "load I params id' w =
     ((if id' \<noteq> resolved_virtual I \<and> id' \<noteq> resolved_seedVirtual then Inr None
       else Inr (Some (case connection params of
                         Studio appToken \<Rightarrow> getStudioVirtualModContents I (tables params) appToken
                       | Local seedFiles \<Rightarrow>
                           getLocalVirtualModContents I (tables params) (root params) seedFiles
                             (id' = resolved_seedVirtual)))), w)"
proof -
  have "\<not> list_ex (\<lambda>f. id' = f) (seedFilePaths I params)"
    using assms by (auto simp: list_ex_iff)
  then show ?thesis
    by (simp add: load_def split: connection.splits)
qed

text \<open>
  Claim C3. When the id given to \<^verbatim>\<open>load\<close> is one of the seed file paths, \<^verbatim>\<open>load\<close> runs
  \<^verbatim>\<open>recreateTables\<close> on the local client to its end: the world \<^verbatim>\<open>load\<close> leaves is the world
  \<^verbatim>\<open>recreateTables\<close> leaves, with its batch submitted. Only then is the answer decided: an
  error of \<^verbatim>\<open>recreateTables\<close> is the result of \<^verbatim>\<open>load\<close>, with no module text; without an
  error \<^verbatim>\<open>load\<close> declines unless the id is one of the two virtual ids.
\<close>

theorem load_seed_file_recreates:
  assumes "id' \<in> set (seedFilePaths I params)"
  shows "snd (load I params id' w) = snd (recreateTables I (local_client I params) (tables params) w)
    \<and> batches (snd (load I params id' w)) = batches w @ [(local_client I params, spec_batch I (tables params))]
    \<and> fst (load I params id' w) =
        (case fst (recreateTables I (local_client I params) (tables params) w) of
           Inl e \<Rightarrow> Inl e
         | Inr u \<Rightarrow>
             if id' \<noteq> resolved_virtual I \<and> id' \<noteq> resolved_seedVirtual then Inr None
             else Inr (Some (case connection params of
                               Studio appToken \<Rightarrow> getStudioVirtualModContents I (tables params) appToken
                             | Local seedFiles \<Rightarrow>
                                 getLocalVirtualModContents I (tables params) (root params) seedFiles
                                   (id' = resolved_seedVirtual))))"
proof -
  obtain r w' where rw: "recreateTables I (local_client I params) (tables params) w = (r, w')"
    by (cases "recreateTables I (local_client I params) (tables params) w")
  have b: "batches w' = batches w @ [(local_client I params, spec_batch I (tables params))]"
    using rw batches_db_batch [of I "local_client I params" "spec_batch I (tables params)" w]
    by (simp add: recreateTables_as_db_batch)
  show ?thesis
    using load_at_seed_path [OF assms, of w] rw b by (cases r) simp_all
qed

theorem load_seed_file_recreates_witness:
  "''/proj/db/seed.ts'' \<in> set (seedFilePaths posix_bindings local_params)
   \<and> fst (load posix_bindings local_params ''/proj/db/seed.ts'' fresh) = Inr None
   \<and> batches (snd (load posix_bindings local_params ''/proj/db/seed.ts'' fresh)) =
       [(''file:///proj/.astro/content.db'', spec_batch posix_bindings (tables local_params))]
   \<and> contents (snd (load posix_bindings local_params ''/proj/db/seed.ts'' fresh)) =
       [spec_batch posix_bindings (tables local_params)]
   \<and> ''/proj/db/seed.ts'' \<in> set (seedFilePaths failing_bindings local_params)
   \<and> fst (load failing_bindings local_params ''/proj/db/seed.ts'' fresh) = Inl ''SQLITE_ERROR''"
proof -
  have m: "''/proj/db/seed.ts'' \<in> set (seedFilePaths posix_bindings local_params)"
    by (simp add: example_defs)
  have m': "''/proj/db/seed.ts'' \<in> set (seedFilePaths failing_bindings local_params)"
    by (simp add: example_defs)
  show ?thesis
    using m m' load_seed_file_recreates [OF m, of fresh] load_seed_file_recreates [OF m', of fresh]
    by (simp add: recreateTables_as_db_batch db_batch_def example_defs resolved_virtual_def
          resolved_seedVirtual_def)
qed

subsection \<open>Loading the seed-bearing virtual module\<close>

text \<open>
  Claim C7, as stated, fails: \<^verbatim>\<open>load\<close> of the seed-bearing virtual id does not run
  \<^verbatim>\<open>recreateTables\<close>. With the paths of a POSIX project no batch reaches the database, the
  world is left as it was, and the local module text with its seed invocation is returned.
\<close>

theorem load_seedVirtual_counterexample:
  "resolved_seedVirtual \<notin> set (seedFilePaths posix_bindings local_params)
   \<and> snd (load posix_bindings local_params resolved_seedVirtual fresh) = fresh
   \<and> batches (snd (load posix_bindings local_params resolved_seedVirtual fresh)) = []
   \<and> fst (load posix_bindings local_params resolved_seedVirtual fresh) =
       Inr (Some (getLocalVirtualModContents posix_bindings (tables local_params) (root local_params) [] True))"
  by (simp add: load_def example_defs resolved_seedVirtual_def resolved_virtual_def
        WITH_SEED_VIRTUAL_MODULE_ID_def)

text \<open>
  Claim C7, amended. A call of \<^verbatim>\<open>load\<close> submits the batch of \<^verbatim>\<open>recreateTables\<close> exactly when
  its id is one of the seed file paths. The seed-bearing virtual id, as long as it is not
  such a path, leaves the world untouched and yields the module text: in local mode the
  text rendered with \<^verbatim>\<open>shouldSeed\<close> true, whose seed invocation imports the seed files.
\<close>

theorem load_recreates_iff_seed_file:
  "batches (snd (load I params id' w)) =
     batches w @ (if id' \<in> set (seedFilePaths I params)
                  then [(local_client I params, spec_batch I (tables params))] else [])
   \<and> (resolved_seedVirtual \<notin> set (seedFilePaths I params) \<longrightarrow>
        load I params resolved_seedVirtual w =
          (Inr (Some (case connection params of
                        Studio appToken \<Rightarrow> getStudioVirtualModContents I (tables params) appToken
                      | Local seedFiles \<Rightarrow>
                          getLocalVirtualModContents I (tables params) (root params) seedFiles True)), w))"
proof -
  have first: "batches (snd (load I params id' w)) =
     batches w @ (if id' \<in> set (seedFilePaths I params)
                  then [(local_client I params, spec_batch I (tables params))] else [])"
  proof (cases "id' \<in> set (seedFilePaths I params)")
    case True
    obtain r w' where rw: "recreateTables I (local_client I params) (tables params) w = (r, w')"
      by (cases "recreateTables I (local_client I params) (tables params) w")
    have "batches w' = batches w @ [(local_client I params, spec_batch I (tables params))]"
      using rw batches_db_batch [of I "local_client I params" "spec_batch I (tables params)" w]
      by (simp add: recreateTables_as_db_batch)
    then show ?thesis
      using load_at_seed_path [OF True, of w] rw True by (cases r) simp_all
  next
    case False
    then show ?thesis
      by (simp add: load_at_other_id)
  qed
  have second: "resolved_seedVirtual \<notin> set (seedFilePaths I params) \<longrightarrow>
        load I params resolved_seedVirtual w =
          (Inr (Some (case connection params of
                        Studio appToken \<Rightarrow> getStudioVirtualModContents I (tables params) appToken
                      | Local seedFiles \<Rightarrow>
                          getLocalVirtualModContents I (tables params) (root params) seedFiles True)), w)"
    by (simp add: load_at_other_id split: connection.splits)
  from first second show ?thesis ..
qed

theorem load_recreates_iff_seed_file_witness:
  "resolved_seedVirtual \<notin> set (seedFilePaths posix_bindings local_params)
   \<and> load posix_bindings local_params resolved_seedVirtual fresh =
       (Inr (Some (getLocalVirtualModContents posix_bindings (tables local_params) (root local_params) [] True)),
        fresh)
   \<and> batches (snd (load posix_bindings local_params ''/proj/db/seed.mjs'' fresh)) =
       [(''file:///proj/.astro/content.db'', spec_batch posix_bindings (tables local_params))]"
proof -
  have n: "resolved_seedVirtual \<notin> set (seedFilePaths posix_bindings local_params)"
    by (simp add: example_defs resolved_seedVirtual_def)
  show ?thesis
    using n load_recreates_iff_seed_file [of posix_bindings local_params resolved_seedVirtual fresh]
      load_recreates_iff_seed_file [of posix_bindings local_params "''/proj/db/seed.mjs''" fresh]
    by (simp add: example_defs)
qed

subsection \<open>Loading a seed file in studio mode\<close>

text \<open>
  Claim C10. The seed file check of \<^verbatim>\<open>load\<close> does not look at the mode. With
  \<^verbatim>\<open>connectToStudio\<close> true and an id that is one of the seed file paths, \<^verbatim>\<open>load\<close> still runs
  \<^verbatim>\<open>recreateTables\<close> on a local client, made from \<^verbatim>\<open>DB_PATH\<close> under the root, and only after it
  has ended without an error answers: with the studio module text for a virtual id, and by
  declining for any other id.
\<close>

theorem load_studio_seed_file:
  assumes "connection params = Studio appToken"
    and "id' \<in> set (seedFilePaths I params)"
  shows "connectToStudio params
    \<and> snd (load I params id' w) = snd (recreateTables I (local_client I params) (tables params) w)
    \<and> batches (snd (load I params id' w)) =
        batches w @ [(createLocalDatabaseClient I (href (new_URL I (DB_PATH I) (root params))),
                      spec_batch I (tables params))]
    \<and> fst (load I params id' w) =
        (case fst (recreateTables I (local_client I params) (tables params) w) of
           Inl e \<Rightarrow> Inl e
         | Inr u \<Rightarrow>
             if id' = resolved_virtual I \<or> id' = resolved_seedVirtual
             then Inr (Some (getStudioVirtualModContents I (tables params) appToken))
             else Inr None)"
proof -
  obtain r w' where rw: "recreateTables I (local_client I params) (tables params) w = (r, w')"
    by (cases "recreateTables I (local_client I params) (tables params) w")
  have b: "batches w' = batches w @ [(local_client I params, spec_batch I (tables params))]"
    using rw batches_db_batch [of I "local_client I params" "spec_batch I (tables params)" w]
    by (simp add: recreateTables_as_db_batch)
  show ?thesis
    using load_at_seed_path [OF assms(2), of w] rw b assms(1)
    by (cases r) (auto simp: connectToStudio_def local_client_def)
qed

theorem load_studio_seed_file_witness:
  "connection studio_params = Studio ''token''
   \<and> ''/proj/db/seed.ts'' \<in> set (seedFilePaths posix_bindings studio_params)
   \<and> connectToStudio studio_params
   \<and> batches (snd (load posix_bindings studio_params ''/proj/db/seed.ts'' fresh)) =
       [(''file:///proj/.astro/content.db'', spec_batch posix_bindings (tables studio_params))]
   \<and> fst (load posix_bindings studio_params ''/proj/db/seed.ts'' fresh) = Inr None"
proof -
  have c: "connection studio_params = Studio ''token''"
    by (simp add: example_defs)
  have m: "''/proj/db/seed.ts'' \<in> set (seedFilePaths posix_bindings studio_params)"
    by (simp add: example_defs)
  show ?thesis
    using c m load_studio_seed_file [OF c m, of fresh]
    by (simp add: recreateTables_as_db_batch db_batch_def example_defs resolved_virtual_def
          resolved_seedVirtual_def)
qed

subsection \<open>Rendering and counting\<close>

lemma render_append: "render (ps @ qs) = render ps @ render qs"
  by (simp add: render_def)

lemma skeleton_append: "skeleton (ps @ qs) = skeleton ps @ skeleton qs"
  by (simp add: skeleton_def)

lemma render_join: "render (join sep pss) = join (render sep) (map render pss)"
  by (induction sep pss rule: join.induct) (simp_all add: render_append, simp add: render_def)

lemma skeleton_join: "skeleton (join sep pss) = join (skeleton sep) (map skeleton pss)"
  by (induction sep pss rule: join.induct) (simp_all add: skeleton_append, simp add: skeleton_def)

lemma prefix_append_hd:
  assumes "b = [] \<or> hd b \<notin> set n"
  shows "prefix n (a @ b) \<longleftrightarrow> prefix n a"
proof
  assume "prefix n (a @ b)"
  then have "prefix n a \<or> (\<exists>us. n = a @ us \<and> prefix us b)"
    by (simp add: prefix_append)
  then show "prefix n a"
  proof
    assume "prefix n a"
    then show ?thesis .
  next
    assume "\<exists>us. n = a @ us \<and> prefix us b"
    then obtain us where us: "n = a @ us" "prefix us b"
      by blast
    show ?thesis
    proof (cases us)
      case Nil
      with us show ?thesis by simp
    next
      case (Cons u us')
      with us(2) have "b \<noteq> []" "hd b = u"
        by (auto simp: prefix_def)
      with assms us(1) Cons show ?thesis by simp
    qed
  qed
next
  assume "prefix n a"
  then show "prefix n (a @ b)"
    by (simp add: prefix_prefix)
qed

lemma occurrences_append_hd:
  assumes "b = [] \<or> hd b \<notin> set n"
  shows "occurrences n (a @ b) = occurrences n a + occurrences n b"
proof (induction a)
  case Nil
  then show ?case by simp
next
  case (Cons c a)
  have "prefix n ((c # a) @ b) \<longleftrightarrow> prefix n (c # a)"
    using assms by (rule prefix_append_hd)
  with Cons show ?case by simp
qed

lemma prefix_append_last:
  assumes "a \<noteq> []" "last a \<notin> set n"
  shows "prefix n (a @ b) \<longleftrightarrow> prefix n a"
proof
  assume "prefix n (a @ b)"
  then consider "prefix n a" | us where "n = a @ us"
    by (auto simp: prefix_append)
  then show "prefix n a"
  proof cases
    case 1
    then show ?thesis .
  next
    case 2
    with assms show ?thesis by auto
  qed
next
  assume "prefix n a"
  then show "prefix n (a @ b)"
    by (simp add: prefix_prefix)
qed

lemma occurrences_append_last:
  assumes "a = [] \<or> last a \<notin> set n"
  shows "occurrences n (a @ b) = occurrences n a + occurrences n b"
  using assms
proof (induction a)
  case Nil
  then show ?case by simp
next
  case (Cons c a)
  then have l: "last (c # a) \<notin> set n"
    by simp
  have "prefix n ((c # a) @ b) \<longleftrightarrow> prefix n (c # a)"
    by (rule prefix_append_last) (use l in simp_all)
  moreover have "a = [] \<or> last a \<notin> set n"
    using l by (cases a) simp_all
  ultimately show ?case
    using Cons.IH by simp
qed

lemma occurrences_disjoint:
  assumes "n \<noteq> []" "set s \<inter> set n = {}"
  shows "occurrences n s = 0"
  using assms
proof (induction s)
  case Nil
  then show ?case by simp
next
  case (Cons c s)
  have "\<not> prefix n (c # s)"
  proof
    assume "prefix n (c # s)"
    with Cons.prems(1) have "hd n = c"
      by (cases n) simp_all
    with Cons.prems show False
      by (cases n) auto
  qed
  with Cons show ?case by simp
qed

lemma occurrences_join:
  assumes "n \<noteq> []" "sep \<noteq> []" "set sep \<inter> set n = {}"
  shows "occurrences n (join sep xs) = sum_list (map (occurrences n) xs)"
proof -
  have hd_sep: "hd sep \<notin> set n" and last_sep: "last sep \<notin> set n"
    using assms(2,3) hd_in_set [of sep] last_in_set [of sep] by blast+
  have zero: "occurrences n sep = 0"
    using assms(1,3) by (rule occurrences_disjoint)
  show ?thesis
  proof (induction xs rule: induct_list012)
    case 1
    then show ?case by simp
  next
    case (2 x)
    then show ?case by simp
  next
    case (3 x y ys)
    have "occurrences n (x @ sep @ join sep (y # ys)) =
        occurrences n x + occurrences n (sep @ join sep (y # ys))"
      by (rule occurrences_append_hd) (use hd_sep assms(2) in simp)
    also have "occurrences n (sep @ join sep (y # ys)) =
        occurrences n sep + occurrences n (join sep (y # ys))"
      by (rule occurrences_append_last) (use last_sep in simp)
    finally show ?case
      using 3 zero by simp
  qed
qed

lemma skeleton_exports:
  "skeleton (getStringifiedCollectionExports_template I tbls) =
     join ''\<newline>'' (map (\<lambda>entry. table_export_code) tbls)"
  by (simp add: getStringifiedCollectionExports_template_def skeleton_join)
     (simp add: skeleton_def split_def comp_def table_export_code_def)

lemma skeleton_seed_imports:
  "skeleton (join [Quasi '',''] (integrationSeedImports I rt seedFiles)) =
     join '','' (map (\<lambda>ref. thunk_code) seedFiles)"
  by (simp add: integrationSeedImports_def integrationSeedFilePaths_def skeleton_join)
     (simp add: skeleton_def comp_def thunk_code_def)

lemma skeleton_local_seed:
  "skeleton (getLocalVirtualModContents_template I tbls rt seedFiles True) =
     local_head_code True @ seed_open_code @ join '','' (map (\<lambda>ref. thunk_code) seedFiles) @
     seed_close_code @ local_tail_code @ join ''\<newline>'' (map (\<lambda>entry. table_export_code) tbls)"
  unfolding getLocalVirtualModContents_template_def Let_def skeleton_append skeleton_seed_imports
    skeleton_exports if_True
  by (simp add: skeleton_def local_head_code_def seed_open_code_def seed_close_code_def
        local_tail_code_def)

lemma skeleton_local_plain:
  "skeleton (getLocalVirtualModContents_template I tbls rt seedFiles False) =
     local_head_code False @ local_tail_code @ join ''\<newline>'' (map (\<lambda>entry. table_export_code) tbls)"
  unfolding getLocalVirtualModContents_template_def Let_def skeleton_append skeleton_exports if_False
  by (simp add: skeleton_def local_head_code_def local_tail_code_def)


lemma occurrences_exports:
  assumes "n \<noteq> []" "CHR ''\<newline>'' \<notin> set n"
  shows "occurrences n (join ''\<newline>'' (map (\<lambda>entry. table_export_code) tbls)) = length tbls * occurrences n table_export_code"
  using assms by (subst occurrences_join) (simp_all add: comp_def sum_list_triv)

lemma occurrences_thunks:
  assumes "n \<noteq> []" "CHR '','' \<notin> set n"
  shows "occurrences n (join '','' (map (\<lambda>ref. thunk_code) seedFiles)) = length seedFiles * occurrences n thunk_code"
  using assms by (subst occurrences_join) (simp_all add: comp_def sum_list_triv)

lemma last_local_head_code: "last (local_head_code b) = CHR ''\<newline>''" "local_head_code b \<noteq> []"
  by (simp_all add: local_head_code_def)

lemma last_seed_open_code: "last seed_open_code = CHR ''[''" "seed_open_code \<noteq> []"
  by (simp_all add: seed_open_code_def)

lemma hd_seed_close_code: "hd seed_close_code = CHR '']''" "seed_close_code \<noteq> []"
  by (simp_all add: seed_close_code_def)

lemma last_local_tail_code: "last local_tail_code = CHR ''\<newline>''" "local_tail_code \<noteq> []"
  by (simp_all add: local_tail_code_def)

lemma hd_local_tail_code: "hd local_tail_code = CHR ''\<newline>''"
  by (simp add: local_tail_code_def)


lemma occurrences_seed_block:
  assumes "n \<noteq> []" "CHR ''['' \<notin> set n" "CHR '']'' \<notin> set n" "CHR '','' \<notin> set n" "CHR ''\<newline>'' \<notin> set n"
    and "x \<noteq> []" "last x = CHR ''[''"
  shows "occurrences n (x @ join '','' (map (\<lambda>ref. thunk_code) seedFiles) @ seed_close_code @
            local_tail_code @ join ''\<newline>'' (map (\<lambda>entry. table_export_code) tbls)) =
     occurrences n x + length seedFiles * occurrences n thunk_code
     + occurrences n seed_close_code + occurrences n local_tail_code
     + length tbls * occurrences n table_export_code"
proof -
  let ?T = "join '','' (map (\<lambda>ref. thunk_code) seedFiles)"
  let ?E = "join ''\<newline>'' (map (\<lambda>entry. table_export_code) tbls)"
  have "occurrences n (x @ ?T @ seed_close_code @ local_tail_code @ ?E) =
      occurrences n x + occurrences n (?T @ seed_close_code @ local_tail_code @ ?E)"
    by (rule occurrences_append_last) (simp add: assms)
  also have "occurrences n (?T @ seed_close_code @ local_tail_code @ ?E) =
      occurrences n ?T + occurrences n (seed_close_code @ local_tail_code @ ?E)"
    by (rule occurrences_append_hd) (simp add: hd_seed_close_code assms)
  also have "occurrences n (seed_close_code @ local_tail_code @ ?E) =
      occurrences n seed_close_code + occurrences n (local_tail_code @ ?E)"
    by (rule occurrences_append_hd) (simp add: hd_local_tail_code last_local_tail_code assms)
  also have "occurrences n (local_tail_code @ ?E) = occurrences n local_tail_code + occurrences n ?E"
    by (rule occurrences_append_last) (simp add: last_local_tail_code assms)
  finally show ?thesis
    using assms by (simp add: occurrences_exports occurrences_thunks)
qed

lemma occurrences_local_seed:
  assumes "n \<noteq> []" "CHR ''['' \<notin> set n" "CHR '']'' \<notin> set n" "CHR '','' \<notin> set n" "CHR ''\<newline>'' \<notin> set n"
  shows "occurrences n (skeleton (getLocalVirtualModContents_template I tbls rt seedFiles True)) =
     occurrences n (local_head_code True) + occurrences n seed_open_code
     + length seedFiles * occurrences n thunk_code
     + occurrences n seed_close_code + occurrences n local_tail_code
     + length tbls * occurrences n table_export_code"
proof -
  let ?rest = "seed_open_code @ join '','' (map (\<lambda>ref. thunk_code) seedFiles) @ seed_close_code @
      local_tail_code @ join ''\<newline>'' (map (\<lambda>entry. table_export_code) tbls)"
  have "occurrences n (local_head_code True @ ?rest) =
      occurrences n (local_head_code True) + occurrences n ?rest"
    by (rule occurrences_append_last) (simp add: last_local_head_code assms)
  then show ?thesis
    using assms by (simp add: skeleton_local_seed occurrences_seed_block last_seed_open_code)
qed

lemma occurrences_local_plain:
  assumes "n \<noteq> []" "CHR ''\<newline>'' \<notin> set n"
  shows "occurrences n (skeleton (getLocalVirtualModContents_template I tbls rt seedFiles False)) =
     occurrences n (local_head_code False) + occurrences n local_tail_code
     + length tbls * occurrences n table_export_code"
proof -
  let ?E = "join ''\<newline>'' (map (\<lambda>entry. table_export_code) tbls)"
  have "occurrences n (local_head_code False @ local_tail_code @ ?E) =
      occurrences n (local_head_code False) + occurrences n (local_tail_code @ ?E)"
    by (rule occurrences_append_last) (simp add: last_local_head_code assms)
  also have "occurrences n (local_tail_code @ ?E) = occurrences n local_tail_code + occurrences n ?E"
    by (rule occurrences_append_last) (simp add: last_local_tail_code assms)
  finally show ?thesis
    using assms by (simp add: skeleton_local_plain occurrences_exports)
qed


lemmas code_defs =
  local_head_code_def seed_open_code_def thunk_code_def seed_close_code_def local_tail_code_def
  table_export_code_def studio_head_code_def


lemma render_seed_imports:
  "render (join [Quasi '',''] (integrationSeedImports I rt seedFiles)) =
     join '','' (map (\<lambda>filePath. ''() => import('' @ stringify I filePath @ '')'')
                  (integrationSeedFilePaths I rt seedFiles))"
  by (simp add: integrationSeedImports_def render_join)
     (simp add: render_def comp_def)

lemma render_local_seed:
  "getLocalVirtualModContents I tbls rt seedFiles True =
     (''\<newline>import { asDrizzleTable, createLocalDatabaseClient } from '' @ RUNTIME_IMPORT I @
      '';\<newline>import { seedLocal } from '' @ RUNTIME_IMPORT I @
      '';\<newline>\<newline>const dbUrl = '' @ stringify_URL I (new_URL I (DB_PATH I) rt) @
      '';\<newline>export const db = createLocalDatabaseClient({ dbUrl });\<newline>\<newline>'')
     @ (''await seedLocal({\<newline>'' @ CHR 0x09 # ''userSeedGlob: import.meta.glob('' @
        stringify_array I (userSeedFilePaths I) @
        '', { eager: true }),\<newline>'' @ CHR 0x09 # ''integrationSeedImports: ['' @
        join '','' (map (\<lambda>filePath. ''() => import('' @ stringify I filePath @ '')'')
                     (integrationSeedFilePaths I rt seedFiles)) @
        ''],\<newline>});'')
     @ (''\<newline>\<newline>export * from '' @ RUNTIME_CONFIG_IMPORT I @ '';\<newline>\<newline>'')
     @ getStringifiedCollectionExports I tbls"
  unfolding getLocalVirtualModContents_def getLocalVirtualModContents_template_def Let_def
    render_append render_seed_imports if_True getStringifiedCollectionExports_def
  by (simp add: render_def)

lemma render_local_plain:
  "getLocalVirtualModContents I tbls rt seedFiles False =
     (''\<newline>import { asDrizzleTable, createLocalDatabaseClient } from '' @ RUNTIME_IMPORT I @
      '';\<newline>\<newline>\<newline>const dbUrl = '' @ stringify_URL I (new_URL I (DB_PATH I) rt) @
      '';\<newline>export const db = createLocalDatabaseClient({ dbUrl });\<newline>\<newline>'')
     @ (''\<newline>\<newline>export * from '' @ RUNTIME_CONFIG_IMPORT I @ '';\<newline>\<newline>'')
     @ getStringifiedCollectionExports I tbls"
  unfolding getLocalVirtualModContents_def getLocalVirtualModContents_template_def Let_def
    render_append if_False getStringifiedCollectionExports_def
  by (simp add: render_def)

lemma render_studio:
  "getStudioVirtualModContents I tbls appToken =
     ''\<newline>import {asDrizzleTable, createRemoteDatabaseClient} from '' @ RUNTIME_IMPORT I @
     '';\<newline>\<newline>export const db = await createRemoteDatabaseClient('' @ stringify I appToken @
     '', import.meta.env.ASTRO_STUDIO_REMOTE_DB_URL ?? '' @ stringify I (getRemoteDatabaseUrl I) @
     '');\<newline>\<newline>export * from '' @ RUNTIME_CONFIG_IMPORT I @ '';\<newline>\<newline>'' @
     getStringifiedCollectionExports I tbls @ [CHR 0x0A, CHR 0x09]"
  unfolding getStudioVirtualModContents_def getStudioVirtualModContents_template_def
    render_append getStringifiedCollectionExports_def
  by (simp add: render_def)

subsection \<open>The local module\<close>

text \<open>
  Claim C4, as stated, fails: the seed invocation is not ahead of the export statements.
  In the local module of a POSIX project the statement \<^verbatim>\<open>export const db = ...\<close> begins at
  character 180 and the seed invocation at character 237; each occurs once.
\<close>

theorem seed_invocation_order_counterexample:
  "indexOf ''export const db = '' (getLocalVirtualModContents posix_bindings (tables local_params) (root local_params) [] True) = Some 180
   \<and> indexOf ''await seedLocal('' (getLocalVirtualModContents posix_bindings (tables local_params) (root local_params) [] True) = Some 237
   \<and> occurrences ''export const db = '' (getLocalVirtualModContents posix_bindings (tables local_params) (root local_params) [] True) = 1
   \<and> occurrences ''await seedLocal('' (getLocalVirtualModContents posix_bindings (tables local_params) (root local_params) [] True) = 1
   \<and> \<not> precedes ''await seedLocal('' ''export const db = ''
        (getLocalVirtualModContents posix_bindings (tables local_params) (root local_params) [] True)"
  by code_simp

text \<open>
  Claim C4, amended. With \<^verbatim>\<open>shouldSeed\<close> true the local module is its head, which ends with
  the statement exporting \<^verbatim>\<open>db\<close>, then the awaited seed invocation, then the re-export of
  the runtime configuration and the exports of the tables. Of the code the generator
  writes, one export statement, that of \<^verbatim>\<open>db\<close>, lies ahead of the seed invocation and all
  the others, the re-export and one per table, lie behind it. That code holds one seed
  invocation, one eager glob import, whose argument is the list of the user seed file
  paths, and one deferred import for each integration seed file, none when there is none.
  With \<^verbatim>\<open>shouldSeed\<close> false the code does not mention \<^verbatim>\<open>seedLocal\<close> at all.
\<close>

theorem getLocalVirtualModContents_layout:
  "getLocalVirtualModContents I tbls rt seedFiles True =
     (''\<newline>import { asDrizzleTable, createLocalDatabaseClient } from '' @ RUNTIME_IMPORT I @
      '';\<newline>import { seedLocal } from '' @ RUNTIME_IMPORT I @
      '';\<newline>\<newline>const dbUrl = '' @ stringify_URL I (new_URL I (DB_PATH I) rt) @
      '';\<newline>export const db = createLocalDatabaseClient({ dbUrl });\<newline>\<newline>'')
     @ (''await seedLocal({\<newline>'' @ CHR 0x09 # ''userSeedGlob: import.meta.glob('' @
        stringify_array I (userSeedFilePaths I) @
        '', { eager: true }),\<newline>'' @ CHR 0x09 # ''integrationSeedImports: ['' @
        join '','' (map (\<lambda>filePath. ''() => import('' @ stringify I filePath @ '')'')
                     (integrationSeedFilePaths I rt seedFiles)) @
        ''],\<newline>});'')
     @ (''\<newline>\<newline>export * from '' @ RUNTIME_CONFIG_IMPORT I @ '';\<newline>\<newline>'')
     @ getStringifiedCollectionExports I tbls
   \<and> (\<exists>before after.
         skeleton (getLocalVirtualModContents_template I tbls rt seedFiles True) =
           before @ ''await seedLocal('' @ after
         \<and> occurrences ''await seedLocal('' before = 0
         \<and> occurrences ''await seedLocal('' after = 0
         \<and> occurrences ''export '' before = 1
         \<and> occurrences ''export const db = '' before = 1
         \<and> occurrences ''export '' after = 1 + length tbls
         \<and> occurrences ''export * from '' after = 1
         \<and> occurrences ''export const '' after = length tbls)
   \<and> occurrences ''await seedLocal('' (skeleton (getLocalVirtualModContents_template I tbls rt seedFiles True)) = 1
   \<and> occurrences ''import.meta.glob('' (skeleton (getLocalVirtualModContents_template I tbls rt seedFiles True)) = 1
   \<and> occurrences ''() => import('' (skeleton (getLocalVirtualModContents_template I tbls rt seedFiles True))
       = length seedFiles
   \<and> length (integrationSeedImports I rt seedFiles) = length seedFiles
   \<and> occurrences ''seedLocal'' (skeleton (getLocalVirtualModContents_template I tbls rt seedFiles False)) = 0
   \<and> getLocalVirtualModContents I tbls rt seedFiles False =
       (''\<newline>import { asDrizzleTable, createLocalDatabaseClient } from '' @ RUNTIME_IMPORT I @
        '';\<newline>\<newline>\<newline>const dbUrl = '' @ stringify_URL I (new_URL I (DB_PATH I) rt) @
        '';\<newline>export const db = createLocalDatabaseClient({ dbUrl });\<newline>\<newline>'')
       @ (''\<newline>\<newline>export * from '' @ RUNTIME_CONFIG_IMPORT I @ '';\<newline>\<newline>'')
       @ getStringifiedCollectionExports I tbls"
proof -
  let ?sk = "skeleton (getLocalVirtualModContents_template I tbls rt seedFiles True)"
  let ?T = "join '','' (map (\<lambda>ref. thunk_code) seedFiles)"
  let ?E = "join ''\<newline>'' (map (\<lambda>entry. table_export_code) tbls)"
  define x where "x = drop 16 seed_open_code"
  have open_eq: "seed_open_code = ''await seedLocal('' @ x"
    by (simp add: x_def seed_open_code_def)
  have x: "x \<noteq> []" "last x = CHR ''[''"
    by (simp_all add: x_def seed_open_code_def)
  define after where "after = x @ ?T @ seed_close_code @ local_tail_code @ ?E"
  have split: "?sk = local_head_code True @ ''await seedLocal('' @ after"
    by (simp add: skeleton_local_seed open_eq after_def)
  have a1: "occurrences ''await seedLocal('' after = 0"
    unfolding after_def by (subst occurrences_seed_block) (simp_all add: x, simp add: x_def code_defs)
  have a2: "occurrences ''export '' after = 1 + length tbls"
    unfolding after_def by (subst occurrences_seed_block) (simp_all add: x, simp add: x_def code_defs)
  have a3: "occurrences ''export * from '' after = 1"
    unfolding after_def by (subst occurrences_seed_block) (simp_all add: x, simp add: x_def code_defs)
  have a4: "occurrences ''export const '' after = length tbls"
    unfolding after_def by (subst occurrences_seed_block) (simp_all add: x, simp add: x_def code_defs)
  have b: "occurrences ''await seedLocal('' (local_head_code True) = 0"
    "occurrences ''export '' (local_head_code True) = 1"
    "occurrences ''export const db = '' (local_head_code True) = 1"
    by (simp_all add: code_defs)
  have order: "\<exists>before after.
         ?sk = before @ ''await seedLocal('' @ after
         \<and> occurrences ''await seedLocal('' before = 0
         \<and> occurrences ''await seedLocal('' after = 0
         \<and> occurrences ''export '' before = 1
         \<and> occurrences ''export const db = '' before = 1
         \<and> occurrences ''export '' after = 1 + length tbls
         \<and> occurrences ''export * from '' after = 1
         \<and> occurrences ''export const '' after = length tbls"
    using split a1 a2 a3 a4 b by blast
  have c1: "occurrences ''await seedLocal('' ?sk = 1"
    by (subst occurrences_local_seed) (simp_all add: code_defs)
  have c2: "occurrences ''import.meta.glob('' ?sk = 1"
    by (subst occurrences_local_seed) (simp_all add: code_defs)
  have c3: "occurrences ''() => import('' ?sk = length seedFiles"
    by (subst occurrences_local_seed) (simp_all add: code_defs)
  have c4: "length (integrationSeedImports I rt seedFiles) = length seedFiles"
    by (simp add: integrationSeedImports_def integrationSeedFilePaths_def)
  have c5: "occurrences ''seedLocal'' (skeleton (getLocalVirtualModContents_template I tbls rt seedFiles False)) = 0"
    by (subst occurrences_local_plain) (simp_all add: code_defs)
  show ?thesis
    using render_local_seed [of I tbls rt seedFiles] render_local_plain [of I tbls rt seedFiles]
      order c1 c2 c3 c4 c5
    by blast
qed

subsection \<open>The studio module\<close>


subsection \<open>Integration seed files\<close>

text \<open>
  Claim C9, as stated, fails: a relative path that does not begin with a dot is not
  resolved against the project root. For the root \<^verbatim>\<open>file:///proj/\<close> the reference
  \<^verbatim>\<open>db/seed.ts\<close> is emitted as it is, not as \<^verbatim>\<open>/proj/db/seed.ts\<close>.
\<close>

theorem integrationSeedFilePaths_counterexample:
  "integrationSeedFilePaths posix_bindings (URL ''file:///proj/'') [Path ''db/seed.ts''] = [''db/seed.ts'']
   \<and> path_resolve posix_bindings (fileURLToPath posix_bindings (URL ''file:///proj/'')) ''db/seed.ts''
       = ''/proj/db/seed.ts''
   \<and> integrationSeedImports posix_bindings (URL ''file:///proj/'') [Path ''db/seed.ts''] \<noteq>
       [[Quasi ''() => import('',
         Interp (stringify posix_bindings
                   (path_resolve posix_bindings (fileURLToPath posix_bindings (URL ''file:///proj/''))
                      ''db/seed.ts'')),
         Quasi '')'']]"
  by code_simp

text \<open>
  Claim C9, amended. Every reference yields one deferred import, in order, of the
  serialised path of that reference. The path of a string that begins with a dot is the
  string resolved against the path of the project root; the path of any other string,
  absolute or not, is the string itself; the path of a URL is its \<^verbatim>\<open>pathname\<close>.
\<close>

theorem integrationSeedImports_nth:
  assumes "i < length seedFiles"
  shows "length (integrationSeedImports I rt seedFiles) = length seedFiles
    \<and> integrationSeedImports I rt seedFiles ! i =
        [Quasi ''() => import('', Interp (stringify I (integrationSeedFilePaths I rt seedFiles ! i)),
         Quasi '')'']
    \<and> render (integrationSeedImports I rt seedFiles ! i) =
        ''() => import('' @ stringify I (integrationSeedFilePaths I rt seedFiles ! i) @ '')''
    \<and> integrationSeedFilePaths I rt seedFiles ! i =
        (case seedFiles ! i of
           Path s \<Rightarrow> if prefix ''.'' s then path_resolve I (fileURLToPath I rt) s else s
         | Locator u \<Rightarrow> pathname I u)"
  using assms
  by (simp add: integrationSeedImports_def integrationSeedFilePaths_def local_resolveId_def
        render_def split: seed_ref.splits)

theorem integrationSeedImports_nth_witness:
  "(1::nat) < length [Path ''./integration/seed.ts'', Path ''pkg/seed'', Locator (URL ''file:///abs/seed.mjs'')]
   \<and> integrationSeedFilePaths posix_bindings (URL ''file:///proj/'')
        [Path ''./integration/seed.ts'', Path ''pkg/seed'', Locator (URL ''file:///abs/seed.mjs'')] ! 0
       = ''/proj/integration/seed.ts''
   \<and> integrationSeedFilePaths posix_bindings (URL ''file:///proj/'')
        [Path ''./integration/seed.ts'', Path ''pkg/seed'', Locator (URL ''file:///abs/seed.mjs'')] ! 1
       = ''pkg/seed''
   \<and> integrationSeedFilePaths posix_bindings (URL ''file:///proj/'')
        [Path ''./integration/seed.ts'', Path ''pkg/seed'', Locator (URL ''file:///abs/seed.mjs'')] ! 2
       = ''/abs/seed.mjs''
   \<and> render (integrationSeedImports posix_bindings (URL ''file:///proj/'')
        [Path ''./integration/seed.ts'', Path ''pkg/seed'', Locator (URL ''file:///abs/seed.mjs'')] ! 1)
       = ''() => import('' @ quoted ''pkg/seed'' @ '')''"
  using integrationSeedImports_nth [of 0 "[Path ''./integration/seed.ts'', Path ''pkg/seed'', Locator (URL ''file:///abs/seed.mjs'')]" posix_bindings "URL ''file:///proj/''"]
    integrationSeedImports_nth [of 1 "[Path ''./integration/seed.ts'', Path ''pkg/seed'', Locator (URL ''file:///abs/seed.mjs'')]" posix_bindings "URL ''file:///proj/''"]
    integrationSeedImports_nth [of 2 "[Path ''./integration/seed.ts'', Path ''pkg/seed'', Locator (URL ''file:///abs/seed.mjs'')]" posix_bindings "URL ''file:///proj/''"]
  by (simp add: posix_bindings_def posix_resolve_def suffix_def render_def)

subsection \<open>What the module text depends on\<close>

text \<open>
  The bindings stand for what the imports are worth when a generator is called; the field
  \<open>getRemoteDatabaseUrl\<close> is what the call \<^verbatim>\<open>getRemoteDatabaseUrl()\<close> returns at that moment.

  Claim C8, as stated, fails for the studio module: its text is not determined by the
  tables and the access token. The generator calls \<^verbatim>\<open>getRemoteDatabaseUrl()\<close> while it
  generates and writes the serialised answer into the text, so two calls with the same
  tables and the same token, made while that call answers differently, return different
  texts.
\<close>

theorem studio_text_counterexample:
  "getStudioVirtualModContents posix_bindings (tables studio_params) ''token'' \<noteq>
   getStudioVirtualModContents (posix_bindings \<lparr>getRemoteDatabaseUrl := ''http://localhost:8080''\<rparr>)
     (tables studio_params) ''token''"
  by code_simp

lemma exports_template_remote_url:
  "getStringifiedCollectionExports_template (I\<lparr>getRemoteDatabaseUrl := u\<rparr>) tbls =
   getStringifiedCollectionExports_template I tbls"
  by (simp add: getStringifiedCollectionExports_template_def)

text \<open>
  Claim C8, amended. The local module text does not depend on what
  \<^verbatim>\<open>getRemoteDatabaseUrl()\<close> returns: it is made of the arguments and of the constants and
  helpers applied to them. The studio module text holds, besides the tables and the access
  token, the serialised answer of \<^verbatim>\<open>getRemoteDatabaseUrl()\<close> at the time of generation, as the
  fallback of the runtime override: two calls with the same tables and the same token
  return the same text exactly when that answer serialises to the same string.
\<close>

theorem rendering_reads_remote_url:
  "getLocalVirtualModContents (I\<lparr>getRemoteDatabaseUrl := u\<rparr>) tbls rt seedFiles shouldSeed =
     getLocalVirtualModContents I tbls rt seedFiles shouldSeed
   \<and> (getStudioVirtualModContents (I\<lparr>getRemoteDatabaseUrl := u\<rparr>) tbls appToken =
        getStudioVirtualModContents (I\<lparr>getRemoteDatabaseUrl := v\<rparr>) tbls appToken
        \<longleftrightarrow> stringify I u = stringify I v)
   \<and> getStudioVirtualModContents (I\<lparr>getRemoteDatabaseUrl := u\<rparr>) tbls appToken =
       ''\<newline>import {asDrizzleTable, createRemoteDatabaseClient} from '' @ RUNTIME_IMPORT I @
       '';\<newline>\<newline>export const db = await createRemoteDatabaseClient('' @ stringify I appToken @
       '', import.meta.env.ASTRO_STUDIO_REMOTE_DB_URL ?? '' @ stringify I u @
       '');\<newline>\<newline>export * from '' @ RUNTIME_CONFIG_IMPORT I @ '';\<newline>\<newline>'' @
       getStringifiedCollectionExports I tbls @ [CHR 0x0A, CHR 0x09]"
proof -
  have e: "getStringifiedCollectionExports (I\<lparr>getRemoteDatabaseUrl := w\<rparr>) tbls =
      getStringifiedCollectionExports I tbls" for w
    by (simp add: getStringifiedCollectionExports_def exports_template_remote_url)
  have loc: "getLocalVirtualModContents (I\<lparr>getRemoteDatabaseUrl := u\<rparr>) tbls rt seedFiles shouldSeed =
     getLocalVirtualModContents I tbls rt seedFiles shouldSeed"
  proof -
    have "local_resolveId (I\<lparr>getRemoteDatabaseUrl := u\<rparr>) rt = local_resolveId I rt"
      by (intro ext) (simp add: local_resolveId_def)
    then have "integrationSeedFilePaths (I\<lparr>getRemoteDatabaseUrl := u\<rparr>) rt seedFiles =
        integrationSeedFilePaths I rt seedFiles"
      by (auto simp: integrationSeedFilePaths_def split: seed_ref.splits)
    then show ?thesis
      by (simp add: getLocalVirtualModContents_def getLocalVirtualModContents_template_def
            integrationSeedImports_def userSeedFilePaths_def stringify_array_def stringify_URL_def
            exports_template_remote_url)
  qed
  have studio: "getStudioVirtualModContents (I\<lparr>getRemoteDatabaseUrl := w\<rparr>) tbls appToken =
       ''\<newline>import {asDrizzleTable, createRemoteDatabaseClient} from '' @ RUNTIME_IMPORT I @
       '';\<newline>\<newline>export const db = await createRemoteDatabaseClient('' @ stringify I appToken @
       '', import.meta.env.ASTRO_STUDIO_REMOTE_DB_URL ?? '' @ stringify I w @
       '');\<newline>\<newline>export * from '' @ RUNTIME_CONFIG_IMPORT I @ '';\<newline>\<newline>'' @
       getStringifiedCollectionExports I tbls @ [CHR 0x0A, CHR 0x09]" for w
    using render_studio [of "I\<lparr>getRemoteDatabaseUrl := w\<rparr>" tbls appToken] by (simp add: e)
  have iff: "getStudioVirtualModContents (I\<lparr>getRemoteDatabaseUrl := u\<rparr>) tbls appToken =
        getStudioVirtualModContents (I\<lparr>getRemoteDatabaseUrl := v\<rparr>) tbls appToken
        \<longleftrightarrow> stringify I u = stringify I v"
    unfolding studio [of u] studio [of v] by simp
  from loc iff studio [of u] show ?thesis
    by blast
qed

end
